theory Spec2Isabelle
  imports Complex_Main
begin

section \<open>JavaScript primitives used by the mapping service\<close>

text \<open>
  The deterministic SKU mapping engine (class \<open>DeterministicMappingService\<close>) is embedded
  function by function. JavaScript numbers are modelled as \<^typ>\<open>real\<close> (no rounding, no NaN),
  strings as \<^typ>\<open>string\<close> restricted to ASCII, an optional field \<open>f?: T\<close> as \<open>T option\<close>.
  The truthiness tests of the source (\<open>!x\<close>, \<open>x && y\<close>, \<open>x || y\<close>) are written out:
  an absent value, the number \<open>0\<close> and the empty string are falsy.
\<close>

definition truthy_num :: "real option \<Rightarrow> bool" where
  "truthy_num x = (case x of None \<Rightarrow> False | Some v \<Rightarrow> v \<noteq> 0)"

definition truthy_str :: "string option \<Rightarrow> bool" where
  "truthy_str x = (case x of None \<Rightarrow> False | Some s \<Rightarrow> s \<noteq> [])"

definition lowers :: string where
  "lowers = ''abcdefghijklmnopqrstuvwxyz''"

definition uppers :: string where
  "uppers = ''ABCDEFGHIJKLMNOPQRSTUVWXYZ''"

definition digit_chars :: string where
  "digit_chars = ''0123456789''"

definition toLowerCase_char :: "char \<Rightarrow> char" where
  "toLowerCase_char c = (case map_of (zip uppers lowers) c of None \<Rightarrow> c | Some d \<Rightarrow> d)"

definition toUpperCase_char :: "char \<Rightarrow> char" where
  "toUpperCase_char c = (case map_of (zip lowers uppers) c of None \<Rightarrow> c | Some d \<Rightarrow> d)"

definition toLowerCase :: "string \<Rightarrow> string" where
  "toLowerCase s = map toLowerCase_char s"

definition toUpperCase :: "string \<Rightarrow> string" where
  "toUpperCase s = map toUpperCase_char s"

text \<open>The ASCII members of the regular-expression class \<open>\s\<close>.\<close>

definition isSpace :: "char \<Rightarrow> bool" where
  "isSpace c = (c \<in> set [CHR 0x09, CHR 0x0A, CHR 0x0B, CHR 0x0C, CHR 0x0D, CHR 0x20])"

definition isDigit :: "char \<Rightarrow> bool" where
  "isDigit c = (c \<in> set digit_chars)"

definition trim :: "string \<Rightarrow> string" where
  "trim s = rev (dropWhile isSpace (rev (dropWhile isSpace s)))"

text \<open>\<open>s.includes(t)\<close>: \<open>t\<close> occurs in \<open>s\<close> as a contiguous substring.\<close>

primrec str_includes :: "string \<Rightarrow> string \<Rightarrow> bool" where
  "str_includes [] t = (t = [])"
| "str_includes (c # cs) t = (take (length t) (c # cs) = t \<or> str_includes cs t)"

text \<open>\<open>s.split(/\s+/)\<close>: the pieces between maximal runs of white space; a leading or
  trailing run leaves an empty piece, and the empty string gives one empty piece.\<close>

fun split_ws :: "string \<Rightarrow> string list" where
  "split_ws [] = [[]]"
| "split_ws (c # cs) =
     (if isSpace c then
        (if cs \<noteq> [] \<and> isSpace (hd cs) then split_ws cs else [] # split_ws cs)
      else (case split_ws cs of [] \<Rightarrow> [[c]] | w # ws \<Rightarrow> (c # w) # ws))"

text \<open>\<open>s.replace(/[^a-z0-9]/g, '')\<close>.\<close>

definition strip_non_alnum :: "string \<Rightarrow> string" where
  "strip_non_alnum s = filter (\<lambda>c. c \<in> set lowers \<or> c \<in> set digit_chars) s"

text \<open>\<open>xs.join(sep)\<close>.\<close>

fun join :: "string \<Rightarrow> string list \<Rightarrow> string" where
  "join sep [] = []"
| "join sep [x] = x"
| "join sep (x # y # ys) = x @ sep @ join sep (y # ys)"

text \<open>Decimal digits: the value of a digit character, and the decimal numeral of a
  natural number.\<close>

definition digitVal :: "char \<Rightarrow> nat" where
  "digitVal c = length (takeWhile (\<lambda>d. d \<noteq> c) digit_chars)"

definition digitsVal :: "string \<Rightarrow> nat" where
  "digitsVal ds = foldl (\<lambda>a c. 10 * a + digitVal c) 0 ds"

function showNat :: "nat \<Rightarrow> string" where
  "showNat n = (if n < 10 then [digit_chars ! n] else showNat (n div 10) @ [digit_chars ! (n mod 10)])"
  by pat_completeness auto
termination
  by (relation "measure (\<lambda>n. n)") auto

text \<open>\<open>parseFloat\<close> on the text \<open>ip\<close> or \<open>ip.fp\<close> that the size pattern captures
  (\<open>fp\<close> empty when there is no fraction).\<close>

definition parseFloat :: "string \<Rightarrow> string \<Rightarrow> real" where
  "parseFloat ip fp = real (digitsVal ip) + real (digitsVal fp) / 10 ^ length fp"

text \<open>\<open>x.toFixed(1)\<close>: the closest number with one decimal, the larger one on a tie.\<close>

definition toFixed1 :: "real \<Rightarrow> string" where
  "toFixed1 x =
     (let a = \<bar>x\<bar>;
          n = nat \<lfloor>a * 10 + 1 / 2\<rfloor>;
          body = showNat (n div 10) @ ''.'' @ showNat (n mod 10)
      in if x < 0 then ''-'' @ body else body)"

text \<open>The edit distance of the \<open>fast-levenshtein\<close> package (unit costs for insertion,
  deletion and substitution).\<close>

fun levenshtein :: "string \<Rightarrow> string \<Rightarrow> nat" where
  "levenshtein [] t = length t"
| "levenshtein (a # s) [] = Suc (length s)"
| "levenshtein (a # s) (b # t) =
     min (min (Suc (levenshtein s (b # t))) (Suc (levenshtein (a # s) t)))
         (levenshtein s t + (if a = b then 0 else 1))"

text \<open>\<open>candidates.sort(cmp)\<close>: the array sort is stable; with a comparator that is a
  consistent ordering its result is the stable insertion of every element in turn.
  \<open>cmp a b \<le> 0\<close> keeps \<open>a\<close> in front of \<open>b\<close>.\<close>

fun insort_cmp :: "('a \<Rightarrow> 'a \<Rightarrow> real) \<Rightarrow> 'a \<Rightarrow> 'a list \<Rightarrow> 'a list" where
  "insort_cmp cmp x [] = [x]"
| "insort_cmp cmp x (y # ys) = (if cmp x y \<le> 0 then x # y # ys else y # insort_cmp cmp x ys)"

definition Array_sort :: "('a \<Rightarrow> 'a \<Rightarrow> real) \<Rightarrow> 'a list \<Rightarrow> 'a list" where
  "Array_sort cmp xs = foldr (insort_cmp cmp) xs []"

section \<open>Data model\<close>

text \<open>
  Interfaces \<open>SKU\<close> (domain/entities/SKU.ts), \<open>ParsedLineItem\<close>, \<open>MappingExplanation\<close>
  and \<open>MappedLineItem\<close> (domain/entities/RFQRun.ts), \<open>MappingConfig\<close>, \<open>AliasEntry\<close> and
  \<open>SKUCandidate\<close> (the mapping service). A field name that two interfaces share is
  prefixed in the second one (\<open>line_uom\<close>, \<open>tok_description\<close>, \<open>n_material\<close>, \<open>n_gauge\<close>,
  \<open>r_score\<close>, \<open>tol_size_tolerance_mm\<close>).
\<close>

record SKU =
  skuCode :: string
  productFamily :: string
  description :: string
  hsnCode :: string
  uom :: string
  coilLengthM :: "real option"
  material :: string
  gauge :: "string option"
  sizeOdMm :: "real option"
  auxSize :: "string option"
  colour :: "string option"
  moq :: real
  leadTimeDays :: real
  rateInr :: real
  rateAltInr :: "real option"
  altMaterial :: "string option"
  toleranceMm :: "real option"

record raw_tokens =
  tok_description :: "string option"
  size_token :: "string option"
  material_token :: "string option"
  color_token :: "string option"
  gauge_token :: "string option"

record normalized =
  size_mm :: "real option"
  n_material :: "string option"
  color :: "string option"
  n_gauge :: "string option"

record ParsedLineItem =
  input_text :: string
  qty :: real
  line_uom :: string
  raw_tokens :: raw_tokens
  normalized :: "normalized option"

record MappingConfig =
  auto_map_threshold :: real
  confidence_delta :: real
  size_tolerance_mm :: real
  fuzzy_weight :: real
  size_weight :: real
  material_weight :: real
  alias_weight :: real

record AliasEntry =
  "alias" :: string
  boost :: real

record breakdown =
  fuzzy_score :: real
  size_score :: real
  material_score :: real
  alias_score :: real

record SKUCandidate =
  sku :: SKU
  score :: real
  reasons :: "string list"
  breakdown :: breakdown

text \<open>The \<open>scores\<close> of an explanation are the four sub-scores and the total.\<close>

record scores = breakdown +
  total_score :: real

record tolerances =
  tol_size_tolerance_mm :: "real option"
  material_match :: "bool option"

datatype confidence = High | Medium | Low | Conf_failed

record MappingExplanation =
  matched_fields :: "string list"
  scores :: scores
  tolerances :: tolerances
  assumptions :: "string list"
  confidence :: confidence
  needs_review :: bool

datatype status = Auto_mapped | Needs_review | Failed

record result_candidate =
  sku_code :: string
  r_score :: real
  reason :: string

record mapping_result =
  status :: status
  selected_sku :: "string option"
  candidates :: "result_candidate list"
  explanation :: MappingExplanation

record MappedLineItem = ParsedLineItem +
  mapping_result :: mapping_result

text \<open>The state of a \<open>DeterministicMappingService\<close>: its configuration and its alias
  index (a \<open>Map\<close> from SKU code to alias entries).\<close>

record DeterministicMappingService =
  config :: MappingConfig
  aliases :: "string \<rightharpoonup> AliasEntry list"

section \<open>Normalizer\<close>

text \<open>Optional values under the truthiness tests of the source: \<open>a || b\<close> on numbers,
  and the value of an operand once it has been tested truthy.\<close>

definition num_or :: "real option \<Rightarrow> real \<Rightarrow> real" where
  "num_or a b = (case a of None \<Rightarrow> b | Some v \<Rightarrow> if v = 0 then b else v)"

definition num_val :: "real option \<Rightarrow> real" where
  "num_val a = (case a of None \<Rightarrow> 0 | Some v \<Rightarrow> v)"

definition str_val :: "string option \<Rightarrow> string" where
  "str_val a = (case a of None \<Rightarrow> [] | Some v \<Rightarrow> v)"

definition startsWith :: "string \<Rightarrow> string \<Rightarrow> bool" where
  "startsWith s p = (take (length p) s = p)"

text \<open>The unit group \<open>(mm|inch|in|"|')?\<close> of the size pattern, tried in this order
  without regard to case.\<close>

definition matchUnit :: "string \<Rightarrow> string option" where
  "matchUnit r =
     (let l = toLowerCase r in
      if startsWith l ''mm'' then Some ''mm''
      else if startsWith l ''inch'' then Some ''inch''
      else if startsWith l ''in'' then Some ''in''
      else if startsWith l [CHR 0x22] then Some [CHR 0x22]
      else if startsWith l [CHR 0x27] then Some [CHR 0x27]
      else None)"

text \<open>\<open>extractSizeMm\<close>: the first match of \<open>/(\d+(?:\.\d+)?)\s*(mm|inch|in|"|')?/i\<close>
  starts at the first digit of the token; no digit, no match.\<close>

definition extractSizeMm :: "string \<Rightarrow> real option" where
  "extractSizeMm sizeToken =
     (let s = dropWhile (\<lambda>c. \<not> isDigit c) sizeToken in
      if s = [] then None
      else
        (let ip = takeWhile isDigit s;
             r1 = dropWhile isDigit s;
             hasFrac = (case r1 of [] \<Rightarrow> False
                        | c # r \<Rightarrow> c = CHR ''.'' \<and> r \<noteq> [] \<and> isDigit (hd r));
             fp = (if hasFrac then takeWhile isDigit (tl r1) else []);
             r2 = (if hasFrac then dropWhile isDigit (tl r1) else r1);
             r3 = dropWhile isSpace r2;
             val = parseFloat ip fp;
             unit = toLowerCase (case matchUnit r3 of None \<Rightarrow> ''mm'' | Some u \<Rightarrow> u)
         in if unit \<in> set [''inch'', ''in'', [CHR 0x22], [CHR 0x27]]
            then Some (val * 25.4) else Some val))"

definition normalizeMaterial :: "string \<Rightarrow> string" where
  "normalizeMaterial mat =
     (let lower = trim (toLowerCase mat) in
      if str_includes lower ''frpp'' \<or> str_includes lower ''fr-pp'' \<or>
         (str_includes lower ''fr'' \<and> str_includes lower ''pp'') then ''FRPP''
      else if str_includes lower ''pvc'' then ''PVC''
      else if str_includes lower ''nylon'' then ''NYLON''
      else if str_includes lower ''hdpe'' then ''HDPE''
      else if str_includes lower ''ldpe'' then ''LDPE''
      else if str_includes lower ''ms'' \<or> str_includes lower ''gi'' \<or>
              str_includes lower ''galvanized'' then ''MS''
      else if str_includes lower ''pp'' \<or> str_includes lower ''polypropylene'' then ''PP''
      else if str_includes lower ''fr'' \<and> \<not> str_includes lower ''pp'' then ''FR''
      else toUpperCase mat)"

definition normalizeGauge :: "string \<Rightarrow> string" where
  "normalizeGauge g =
     (let lower = trim (toLowerCase g) in
      if lower \<in> set [''light'', ''l''] then ''L''
      else if lower \<in> set [''medium'', ''med'', ''m''] then ''M''
      else if lower \<in> set [''heavy'', ''h''] then ''H''
      else toUpperCase g)"

definition normalizeColor :: "string \<Rightarrow> string" where
  "normalizeColor c = toLowerCase c"

definition getProductFamily :: "string \<Rightarrow> string" where
  "getProductFamily d =
     (let desc = toLowerCase d in
      if str_includes desc ''corrugated'' \<or> str_includes desc ''flexible'' \<or>
         str_includes desc ''cfp'' then ''Corrugated Flexible Pipe''
      else if str_includes desc ''pvc'' \<and> str_includes desc ''conduit'' then ''Rigid PVC Conduit''
      else if str_includes desc ''fan'' \<and> str_includes desc ''box'' then ''GI Fan Box''
      else if str_includes desc ''modular'' \<or> str_includes desc ''switch'' \<or>
              str_includes desc ''msb'' then ''MS Box''
      else if str_includes desc ''cable'' \<and> str_includes desc ''gland'' then ''Cable Gland''
      else if str_includes desc ''cable'' \<and>
              (str_includes desc ''tie'' \<or> str_includes desc ''ties'') then ''Cable Tie''
      else if str_includes desc ''junction'' \<and> str_includes desc ''box'' then ''GI Junction Box''
      else if str_includes desc ''clamp'' \<or> str_includes desc ''saddle'' then ''Accessories''
      else ''Unknown'')"

text \<open>The object spread \<open>{...normalized.normalized, f: v}\<close> starts from the fields already
  there, or from none when \<open>normalized\<close> is absent.\<close>

definition spread_normalized :: "normalized option \<Rightarrow> normalized" where
  "spread_normalized n =
     (case n of None \<Rightarrow> \<lparr>size_mm = None, n_material = None, color = None, n_gauge = None\<rparr>
      | Some v \<Rightarrow> v)"

definition normalizeLineItem :: "ParsedLineItem \<Rightarrow> ParsedLineItem" where
  "normalizeLineItem line =
     (let toks = raw_tokens line;
          n0 = normalized line;
          n1 = (if truthy_str (size_token toks)
                then Some ((spread_normalized n0)\<lparr>size_mm := extractSizeMm (str_val (size_token toks))\<rparr>)
                else n0);
          n2 = (if truthy_str (material_token toks)
                then Some ((spread_normalized n1)
                       \<lparr>n_material := Some (normalizeMaterial (str_val (material_token toks)))\<rparr>)
                else n1);
          n3 = (if truthy_str (color_token toks)
                then Some ((spread_normalized n2)
                       \<lparr>color := Some (normalizeColor (str_val (color_token toks)))\<rparr>)
                else n2);
          n4 = (if truthy_str (gauge_token toks)
                then Some ((spread_normalized n3)
                       \<lparr>n_gauge := Some (normalizeGauge (str_val (gauge_token toks)))\<rparr>)
                else n3)
      in line\<lparr>normalized := n4\<rparr>)"

text \<open>The optional chains \<open>line.normalized?.size_mm\<close>, \<open>?.material\<close> and \<open>?.gauge\<close>.\<close>

definition norm_size_mm :: "ParsedLineItem \<Rightarrow> real option" where
  "norm_size_mm line = (case normalized line of None \<Rightarrow> None | Some n \<Rightarrow> size_mm n)"

definition norm_material :: "ParsedLineItem \<Rightarrow> string option" where
  "norm_material line = (case normalized line of None \<Rightarrow> None | Some n \<Rightarrow> n_material n)"

definition norm_gauge :: "ParsedLineItem \<Rightarrow> string option" where
  "norm_gauge line = (case normalized line of None \<Rightarrow> None | Some n \<Rightarrow> n_gauge n)"

section \<open>Hard-constraint filter\<close>

definition isMaterialCompatible :: "string \<Rightarrow> SKU \<Rightarrow> bool" where
  "isMaterialCompatible inputMaterial sk =
     (let input = toUpperCase inputMaterial;
          skuMaterial = toUpperCase (material sk);
          skuAltMaterial = map_option toUpperCase (altMaterial sk)
      in if input = skuMaterial \<or> Some input = skuAltMaterial then True
         else if productFamily sk = ''Corrugated Flexible Pipe'' then
           (if input = ''FRPP'' \<and> (skuMaterial = ''PP'' \<or> skuAltMaterial = Some ''FRPP'') then True
            else if input = ''FR'' \<and> (skuMaterial = ''PP'' \<or> skuAltMaterial = Some ''FRPP'') then True
            else if input = ''PP'' \<and> skuMaterial = ''PP'' then True
            else False)
         else False)"

definition passesHardConstraints ::
  "DeterministicMappingService \<Rightarrow> ParsedLineItem \<Rightarrow> SKU \<Rightarrow> string \<Rightarrow> bool" where
  "passesHardConstraints this line sk inputFamily =
     (if inputFamily \<noteq> ''Unknown'' \<and> productFamily sk \<noteq> inputFamily then False
      else
        (let inputSize = norm_size_mm line in
         if truthy_num inputSize \<and> truthy_num (sizeOdMm sk) \<and>
            (let tolerance = num_or (toleranceMm sk) (size_tolerance_mm (config this));
                 sizeDiff = \<bar>num_val inputSize - num_val (sizeOdMm sk)\<bar>
             in sizeDiff > tolerance)
         then False
         else
           (let inputMaterial = norm_material line in
            if truthy_str inputMaterial \<and> material sk \<noteq> [] \<and>
               \<not> isMaterialCompatible (str_val inputMaterial) sk
            then False
            else True)))"

section \<open>Candidate scorer\<close>

definition calculateFuzzyScore :: "string \<Rightarrow> SKU \<Rightarrow> real" where
  "calculateFuzzyScore input sk =
     (let inputLower = toLowerCase input;
          skuDescription = toLowerCase (description sk);
          distance = levenshtein inputLower skuDescription;
          maxLength = max (length inputLower) (length skuDescription)
      in if maxLength > 0 then 1 - real distance / real maxLength else 0)"

definition calculateSizeScore ::
  "DeterministicMappingService \<Rightarrow> ParsedLineItem \<Rightarrow> SKU \<Rightarrow> real" where
  "calculateSizeScore this line sk =
     (let inputSize = norm_size_mm line;
          skuSize = sizeOdMm sk
      in if \<not> truthy_num inputSize \<or> \<not> truthy_num skuSize then 0
         else
           (let sizeDiff = \<bar>num_val inputSize - num_val skuSize\<bar> in
            if sizeDiff \<le> size_tolerance_mm (config this) then 1.0
            else if sizeDiff \<le> size_tolerance_mm (config this) * 2 then 0.7
            else if sizeDiff \<le> size_tolerance_mm (config this) * 4 then 0.3
            else 0))"

definition calculateMaterialScore :: "ParsedLineItem \<Rightarrow> SKU \<Rightarrow> real" where
  "calculateMaterialScore line sk =
     (let inputMaterial = norm_material line;
          skuMaterial = material sk
      in if \<not> truthy_str inputMaterial \<and> skuMaterial = [] then 0.5
         else if \<not> truthy_str inputMaterial \<or> skuMaterial = [] then 0.2
         else
           (let materialScore =
                  (if toLowerCase (str_val inputMaterial) = toLowerCase skuMaterial then 1.0 else 0 :: real)
            in if productFamily sk = ''Rigid PVC Conduit'' \<and> materialScore > 0 then
                 (let inputGauge = norm_gauge line;
                      skuGauge = gauge sk
                  in if truthy_str inputGauge \<and> truthy_str skuGauge then
                       (if inputGauge = skuGauge then 1.0 else 0.7)
                     else materialScore)
               else materialScore))"

text \<open>The inner loop of \<open>calculateAliasScore\<close>: the number of alias words that contain, or
  are contained in, some word of the input.\<close>

fun wordMatches :: "string list \<Rightarrow> string list \<Rightarrow> nat" where
  "wordMatches [] inputWords = 0"
| "wordMatches (aliasWord # rest) inputWords =
     (if list_ex (\<lambda>inputWord. str_includes inputWord aliasWord \<or> str_includes aliasWord inputWord)
           inputWords
      then Suc (wordMatches rest inputWords) else wordMatches rest inputWords)"

text \<open>The outer loop over the alias entries of the SKU, threading \<open>maxAliasScore\<close>.\<close>

fun aliasLoop :: "string \<Rightarrow> AliasEntry list \<Rightarrow> real \<Rightarrow> real" where
  "aliasLoop inputLower [] maxAliasScore = maxAliasScore"
| "aliasLoop inputLower (aliasEntry # rest) maxAliasScore =
     (let aliasWords = split_ws (alias aliasEntry);
          inputWords = split_ws inputLower;
          matches = wordMatches aliasWords inputWords;
          m1 = (if matches > 0
                then max maxAliasScore (real matches / real (length aliasWords) * boost aliasEntry)
                else maxAliasScore);
          m2 = (if str_includes inputLower (alias aliasEntry) \<or>
                   str_includes (alias aliasEntry) (strip_non_alnum inputLower)
                then max m1 (boost aliasEntry * 0.8)
                else m1)
      in aliasLoop inputLower rest m2)"

definition calculateAliasScore :: "DeterministicMappingService \<Rightarrow> string \<Rightarrow> SKU \<Rightarrow> real" where
  "calculateAliasScore this input sk =
     (let inputLower = toLowerCase input in
      case aliases this (skuCode sk) of
        None \<Rightarrow> 0
      | Some skuAliases \<Rightarrow> min (aliasLoop inputLower skuAliases 0) 1.0)"

definition scoreSKUMatch ::
  "DeterministicMappingService \<Rightarrow> ParsedLineItem \<Rightarrow> SKU \<Rightarrow> SKUCandidate" where
  "scoreSKUMatch this line sk =
     (let fuzzyScore = calculateFuzzyScore (input_text line) sk;
          reasons1 = (if fuzzyScore > 0.5
                      then [''Description similarity: '' @ toFixed1 (fuzzyScore * 100) @ ''%'']
                      else []);
          sizeScore = calculateSizeScore this line sk;
          reasons2 = reasons1 @
                     (if sizeScore > 0.8 then [''Size match within tolerance'']
                      else if sizeScore > 0.5 then [''Partial size match''] else []);
          materialScore = calculateMaterialScore line sk;
          reasons3 = reasons2 @
                     (if materialScore > 0.9 then [''Exact material match'']
                      else if materialScore > 0.5 then [''Material similarity''] else []);
          aliasScore = calculateAliasScore this (input_text line) sk;
          reasons4 = reasons3 @ (if aliasScore > 0.5 then [''Alias match detected''] else []);
          totalScore = fuzzyScore * fuzzy_weight (config this) +
                       sizeScore * size_weight (config this) +
                       materialScore * material_weight (config this) +
                       aliasScore * alias_weight (config this)
      in \<lparr>sku = sk, score = min totalScore 1.0, reasons = reasons4,
          breakdown = \<lparr>fuzzy_score = fuzzyScore, size_score = sizeScore,
                       material_score = materialScore, alias_score = aliasScore\<rparr>\<rparr>)"

text \<open>The loop of \<open>findCandidates\<close> over the catalog, pushing onto \<open>candidates\<close>.\<close>

fun findLoop ::
  "DeterministicMappingService \<Rightarrow> ParsedLineItem \<Rightarrow> string \<Rightarrow> SKU list \<Rightarrow> SKUCandidate list
   \<Rightarrow> SKUCandidate list" where
  "findLoop this line inputFamily [] cands = cands"
| "findLoop this line inputFamily (sk # rest) cands =
     (if \<not> passesHardConstraints this line sk inputFamily
      then findLoop this line inputFamily rest cands
      else
        (let candidate = scoreSKUMatch this line sk in
         if score candidate > 0.1
         then findLoop this line inputFamily rest (cands @ [candidate])
         else findLoop this line inputFamily rest cands))"

definition findCandidates ::
  "DeterministicMappingService \<Rightarrow> ParsedLineItem \<Rightarrow> SKU list \<Rightarrow> SKUCandidate list" where
  "findCandidates this line skuCatalog =
     (let inputFamily = getProductFamily (input_text line);
          cands = findLoop this line inputFamily skuCatalog []
      in Array_sort (\<lambda>a b. score b - score a) cands)"

section \<open>Decision engine\<close>

definition calculateConfidence ::
  "DeterministicMappingService \<Rightarrow> real \<Rightarrow> real option \<Rightarrow> confidence" where
  "calculateConfidence this topScore secondScore =
     (if topScore \<ge> auto_map_threshold (config this) \<and>
         (\<not> truthy_num secondScore \<or>
          topScore - num_val secondScore \<ge> confidence_delta (config this)) then High
      else if topScore \<ge> 0.6 then Medium
      else Low)"

definition getMatchedFields :: "SKUCandidate \<Rightarrow> string list" where
  "getMatchedFields candidate =
     (if fuzzy_score (breakdown candidate) > 0.5 then [''description''] else []) @
     (if size_score (breakdown candidate) > 0.5 then [''size''] else []) @
     (if material_score (breakdown candidate) > 0.5 then [''material''] else []) @
     (if alias_score (breakdown candidate) > 0.5 then [''aliases''] else [])"

definition createExplanation ::
  "DeterministicMappingService \<Rightarrow> SKUCandidate list \<Rightarrow> confidence \<Rightarrow> string list
   \<Rightarrow> MappingExplanation" where
  "createExplanation this cands conf assumps =
     (case cands of
        [] \<Rightarrow>
          \<lparr>matched_fields = [],
           scores = \<lparr>fuzzy_score = 0, size_score = 0, material_score = 0, alias_score = 0,
                     total_score = 0\<rparr>,
           tolerances = \<lparr>tol_size_tolerance_mm = Some (size_tolerance_mm (config this)),
                         material_match = Some False\<rparr>,
           assumptions = assumps,
           confidence = (if conf = Conf_failed then Low else conf),
           needs_review = True\<rparr>
      | topCandidate # _ \<Rightarrow>
          \<lparr>matched_fields = getMatchedFields topCandidate,
           scores = \<lparr>fuzzy_score = fuzzy_score (breakdown topCandidate),
                     size_score = size_score (breakdown topCandidate),
                     material_score = material_score (breakdown topCandidate),
                     alias_score = alias_score (breakdown topCandidate),
                     total_score = score topCandidate\<rparr>,
           tolerances = \<lparr>tol_size_tolerance_mm = Some (size_tolerance_mm (config this)),
                         material_match = Some (material_score (breakdown topCandidate) > 0.9)\<rparr>,
           assumptions = assumps,
           confidence = (if conf = Conf_failed then Low else conf),
           needs_review = (conf = Conf_failed \<or> False \<or>
                           score topCandidate < auto_map_threshold (config this))\<rparr>)"

definition decideMappingResult ::
  "DeterministicMappingService \<Rightarrow> SKUCandidate list \<Rightarrow> ParsedLineItem \<Rightarrow> mapping_result" where
  "decideMappingResult this cands line =
     (case cands of
        [] \<Rightarrow>
          \<lparr>status = Failed, selected_sku = None, candidates = [],
           explanation = createExplanation this cands Conf_failed
             [''No suitable SKU candidates found'',
              ''Consider checking product catalog or input format'']\<rparr>
      | topCandidate # others \<Rightarrow>
          (let secondCandidate = (case others of [] \<Rightarrow> None | c # _ \<Rightarrow> Some c);
               conf = calculateConfidence this (score topCandidate) (map_option score secondCandidate);
               needsReview =
                 (score topCandidate < auto_map_threshold (config this) \<or>
                  (case secondCandidate of None \<Rightarrow> False
                   | Some c \<Rightarrow> score topCandidate - score c < confidence_delta (config this)));
               stat = (if needsReview then Needs_review else Auto_mapped);
               selectedSku = (if needsReview then None else Some (skuCode (sku topCandidate)))
           in \<lparr>status = stat, selected_sku = selectedSku,
               candidates = map (\<lambda>c. \<lparr>sku_code = skuCode (sku c), r_score = score c,
                                        reason = join ''; '' (reasons c)\<rparr>) (take 3 cands),
               explanation = createExplanation this cands conf (reasons topCandidate)\<rparr>))"

definition mapLine ::
  "DeterministicMappingService \<Rightarrow> SKU list \<Rightarrow> ParsedLineItem \<Rightarrow> MappedLineItem" where
  "mapLine this skuCatalog line =
     (let normalizedLine = normalizeLineItem line;
          cands = findCandidates this normalizedLine skuCatalog;
          mappingResult = decideMappingResult this cands normalizedLine
      in ParsedLineItem.extend normalizedLine (MappedLineItem.fields mappingResult))"

definition mapLineItems ::
  "DeterministicMappingService \<Rightarrow> ParsedLineItem list \<Rightarrow> SKU list \<Rightarrow> MappedLineItem list" where
  "mapLineItems this parsedLines skuCatalog = map (mapLine this skuCatalog) parsedLines"

section \<open>Example data\<close>

text \<open>The default mapping configuration of \<open>ConfigService\<close>, a service with the fallback
  aliases of SKU \<open>NFC25\<close>, and a catalog entry, a scored candidate and a request line to
  instantiate the theorems below.\<close>

definition ex_config :: MappingConfig where
  "ex_config = \<lparr>auto_map_threshold = 0.85, confidence_delta = 0.12, size_tolerance_mm = 2.0,
     fuzzy_weight = 0.6, size_weight = 0.3, material_weight = 0.1, alias_weight = 0.1\<rparr>"

definition ex_service :: DeterministicMappingService where
  "ex_service = \<lparr>config = ex_config,
     aliases = [''NFC25'' \<mapsto> [\<lparr>alias = ''25mm'', boost = 0.3\<rparr>,
                               \<lparr>alias = ''corrugated'', boost = 0.3\<rparr>]]\<rparr>"

definition ex_sku :: SKU where
  "ex_sku = \<lparr>skuCode = ''NFC25'', productFamily = ''Corrugated Flexible Pipe'',
     description = ''pipe 25'', hsnCode = ''00000000'', uom = ''M'', coilLengthM = None,
     material = ''PP'', gauge = None, sizeOdMm = Some 25, auxSize = None, colour = None,
     moq = 1, leadTimeDays = 7, rateInr = 0, rateAltInr = None, altMaterial = None,
     toleranceMm = Some 2\<rparr>"

definition ex_candidate :: "string \<Rightarrow> real \<Rightarrow> SKUCandidate" where
  "ex_candidate code s = \<lparr>sku = ex_sku\<lparr>skuCode := code\<rparr>, score = s, reasons = [],
     breakdown = \<lparr>fuzzy_score = 0, size_score = 0, material_score = 0, alias_score = 0\<rparr>\<rparr>"

definition ex_line :: "string \<Rightarrow> normalized option \<Rightarrow> ParsedLineItem" where
  "ex_line txt n = \<lparr>input_text = txt, qty = 1, line_uom = ''M'',
     raw_tokens = \<lparr>tok_description = None, size_token = None, material_token = None,
                    color_token = None, gauge_token = None\<rparr>,
     normalized = n\<rparr>"

definition ex_normalized :: "real option \<Rightarrow> string option \<Rightarrow> string option \<Rightarrow> normalized" where
  "ex_normalized sz m g = \<lparr>size_mm = sz, n_material = m, color = None, n_gauge = g\<rparr>"

text \<open>A line of size 25 mm against a catalog entry of size 28 mm with its own tolerance
  of 5 mm.\<close>

definition c2_line :: ParsedLineItem where
  "c2_line = ex_line ''pipe'' (Some (ex_normalized (Some 25) None None))"

definition c2_sku :: SKU where
  "c2_sku = ex_sku\<lparr>sizeOdMm := Some 28, toleranceMm := Some 5\<rparr>"

text \<open>A line with material \<open>PVC\<close> and no gauge against a medium-gauge rigid conduit.\<close>

definition c4_line :: ParsedLineItem where
  "c4_line = ex_line ''pvc conduit'' (Some (ex_normalized None (Some ''PVC'') None))"

definition c4_sku :: SKU where
  "c4_sku = ex_sku\<lparr>skuCode := ''PVC25M'', productFamily := ''Rigid PVC Conduit'',
              material := ''PVC'', gauge := Some ''M''\<rparr>"

text \<open>The material codes that the specification lists, and the substrings that the
  rules of \<open>normalizeMaterial\<close> look for.\<close>

definition material_codes :: "string list" where
  "material_codes = [''PVC'', ''PP'', ''FRPP'', ''FR'', ''MS'', ''NYLON'', ''HDPE'', ''LDPE'']"

definition material_markers :: "string list" where
  "material_markers = [''frpp'', ''fr-pp'', ''fr'', ''pvc'', ''nylon'', ''hdpe'', ''ldpe'', ''ms'',
     ''gi'', ''galvanized'', ''pp'', ''polypropylene'']"

text \<open>A line that asks for material FR with the text \<open>fr\<close>, and a line of size 25 mm
  and material PP against a catalog holding the same entry under two codes, with an
  entry of another size between them.\<close>

definition c9_line :: ParsedLineItem where
  "c9_line = ex_line ''fr'' (Some (ex_normalized None (Some ''FR'') None))"

definition c5_line :: ParsedLineItem where
  "c5_line = ex_line ''p'' (Some (ex_normalized (Some 25) (Some ''PP'') None))"

definition c5_catalog :: "SKU list" where
  "c5_catalog = [ex_sku\<lparr>skuCode := ''NFC25A''\<rparr>, ex_sku\<lparr>sizeOdMm := Some 32\<rparr>,
                 ex_sku\<lparr>skuCode := ''NFC25B''\<rparr>]"

section \<open>Evaluation of the string primitives\<close>

lemmas char_case_defs = toLowerCase_def toLowerCase_char_def toUpperCase_def toUpperCase_char_def
  lowers_def uppers_def

lemma toUpperCase_codes:
  "toUpperCase ''FR'' = ''FR''" "toUpperCase ''PP'' = ''PP''" "toUpperCase ''PVC'' = ''PVC''"
  by (simp_all add: char_case_defs)

section \<open>Bounds of the sub-scores\<close>

lemma levenshtein_le_max: "levenshtein s t \<le> max (length s) (length t)"
proof (induction s t rule: levenshtein.induct)
  case (1 t)
  show ?case by simp
next
  case (2 a s)
  show ?case by simp
next
  case (3 a s b t)
  have "levenshtein (a # s) (b # t) \<le> levenshtein s t + (if a = b then 0 else 1)"
    by simp
  also have "\<dots> \<le> Suc (levenshtein s t)" by simp
  also have "\<dots> \<le> Suc (max (length s) (length t))" using "3.IH"(3) by simp
  finally show ?case by simp
qed

lemma calculateFuzzyScore_bounds:
  "0 \<le> calculateFuzzyScore input sk \<and> calculateFuzzyScore input sk \<le> 1"
proof -
  let ?a = "toLowerCase input" and ?b = "toLowerCase (description sk)"
  let ?m = "max (length ?a) (length ?b)"
  have d: "real (levenshtein ?a ?b) \<le> real ?m"
    using levenshtein_le_max [of ?a ?b] by (simp only: of_nat_le_iff)
  show ?thesis
  proof (cases "?m > 0")
    case True
    then have "real (levenshtein ?a ?b) / real ?m \<le> 1" using d by (simp add: divide_le_eq_1)
    moreover have "0 \<le> real (levenshtein ?a ?b) / real ?m" by simp
    ultimately show ?thesis using True by (simp add: calculateFuzzyScore_def Let_def)
  next
    case False
    then show ?thesis by (simp add: calculateFuzzyScore_def Let_def)
  qed
qed

lemma calculateSizeScore_bounds:
  "0 \<le> calculateSizeScore this line sk \<and> calculateSizeScore this line sk \<le> 1"
  by (simp add: calculateSizeScore_def Let_def)

lemma calculateMaterialScore_bounds:
  "0 \<le> calculateMaterialScore line sk \<and> calculateMaterialScore line sk \<le> 1"
  by (simp add: calculateMaterialScore_def Let_def)

lemma aliasLoop_ge: "acc \<le> aliasLoop inputLower es acc"
proof (induction es arbitrary: acc)
  case Nil
  show ?case by simp
next
  case (Cons e es)
  let ?m1 = "if wordMatches (split_ws (alias e)) (split_ws inputLower) > 0
             then max acc (real (wordMatches (split_ws (alias e)) (split_ws inputLower)) /
                           real (length (split_ws (alias e))) * boost e)
             else acc"
  let ?m2 = "if str_includes inputLower (alias e) \<or> str_includes (alias e) (strip_non_alnum inputLower)
             then max ?m1 (boost e * 0.8) else ?m1"
  have "acc \<le> ?m1" by simp
  also have "?m1 \<le> ?m2" by simp
  also have "?m2 \<le> aliasLoop inputLower es ?m2" by (rule Cons.IH)
  finally show ?case by (simp add: Let_def)
qed

lemma calculateAliasScore_bounds:
  "0 \<le> calculateAliasScore this input sk \<and> calculateAliasScore this input sk \<le> 1"
  using aliasLoop_ge [of 0]
  by (simp add: calculateAliasScore_def Let_def split: option.split)

lemma scoreSKUMatch_fields:
  "breakdown (scoreSKUMatch this line sk) =
     \<lparr>fuzzy_score = calculateFuzzyScore (input_text line) sk,
      size_score = calculateSizeScore this line sk,
      material_score = calculateMaterialScore line sk,
      alias_score = calculateAliasScore this (input_text line) sk\<rparr>"
  "score (scoreSKUMatch this line sk) =
     min (calculateFuzzyScore (input_text line) sk * fuzzy_weight (config this) +
          calculateSizeScore this line sk * size_weight (config this) +
          calculateMaterialScore line sk * material_weight (config this) +
          calculateAliasScore this (input_text line) sk * alias_weight (config this)) 1"
  "sku (scoreSKUMatch this line sk) = sk"
  by (simp_all add: scoreSKUMatch_def Let_def)

section \<open>The stable sort and the candidate loop\<close>

lemma set_insort_cmp: "set (insort_cmp cmp x xs) = insert x (set xs)"
  by (induction xs) auto

lemma set_Array_sort: "set (Array_sort cmp xs) = set xs"
  by (induction xs) (simp_all add: Array_sort_def set_insort_cmp)

lemma length_insort_cmp: "length (insort_cmp cmp x xs) = Suc (length xs)"
  by (induction xs) auto

lemma sorted_insort_cmp:
  "sorted_wrt (\<lambda>a b. key b \<le> key a) xs \<Longrightarrow>
   sorted_wrt (\<lambda>a b. key b \<le> (key a :: real)) (insort_cmp (\<lambda>a b. key b - key a) x xs)"
  by (induction xs) (auto simp add: set_insort_cmp)

lemma sorted_Array_sort:
  "sorted_wrt (\<lambda>a b. key b \<le> (key a :: real)) (Array_sort (\<lambda>a b. key b - key a) xs)"
proof (induction xs)
  case Nil
  show ?case by (simp add: Array_sort_def)
next
  case (Cons x xs)
  then show ?case using sorted_insort_cmp [of key "Array_sort (\<lambda>a b. key b - key a) xs" x]
    by (simp add: Array_sort_def)
qed

lemma filter_insort_cmp_other:
  "key x \<noteq> k \<Longrightarrow>
   filter (\<lambda>y. key y = k) (insort_cmp cmp x xs) = filter (\<lambda>y. key y = k) xs"
  by (induction xs) auto

lemma filter_insort_cmp_same:
  "sorted_wrt (\<lambda>a b. key b \<le> key a) xs \<Longrightarrow> key x = k \<Longrightarrow>
   filter (\<lambda>y. key y = (k :: real)) (insort_cmp (\<lambda>a b. key b - key a) x xs) =
   x # filter (\<lambda>y. key y = k) xs"
  by (induction xs) auto

lemma Array_sort_stable:
  "filter (\<lambda>y. key y = (k :: real)) (Array_sort (\<lambda>a b. key b - key a) xs) =
   filter (\<lambda>y. key y = k) xs"
proof (induction xs)
  case Nil
  show ?case by (simp add: Array_sort_def)
next
  case (Cons x xs)
  have srt: "sorted_wrt (\<lambda>a b. key b \<le> key a) (Array_sort (\<lambda>a b. key b - key a) xs)"
    by (rule sorted_Array_sort)
  show ?case
  proof (cases "key x = k")
    case True
    then show ?thesis
      using filter_insort_cmp_same [of key "Array_sort (\<lambda>a b. key b - key a) xs" x k] srt Cons.IH
      by (simp add: Array_sort_def)
  next
    case False
    then show ?thesis
      using filter_insort_cmp_other [of key x k "\<lambda>a b. key b - key a"
              "Array_sort (\<lambda>a b. key b - key a) xs"]
        Cons.IH by (simp add: Array_sort_def)
  qed
qed

lemma findLoop_eq:
  "findLoop this line fam skus cands =
   cands @ map (scoreSKUMatch this line)
             (filter (\<lambda>sk. passesHardConstraints this line sk fam \<and>
                            score (scoreSKUMatch this line sk) > 0.1) skus)"
  by (induction skus arbitrary: cands) (simp_all add: Let_def)

section \<open>Evaluation on the example data\<close>

lemma c5_length: "length (findCandidates ex_service c5_line c5_catalog) = 2"
  by code_simp

lemma c5_admitted:
  "map (\<lambda>c. skuCode (sku c))
     (filter (\<lambda>c. score c = 17 / 35)
        (map (scoreSKUMatch ex_service c5_line)
           (filter (\<lambda>sk. passesHardConstraints ex_service c5_line sk
                             (getProductFamily (input_text c5_line)) \<and>
                          score (scoreSKUMatch ex_service c5_line sk) > 0.1) c5_catalog))) =
   [''NFC25A'', ''NFC25B'']"
  by code_simp

lemma c5_score: "score (scoreSKUMatch ex_service c5_line ex_sku) = 17 / 35"
  by code_simp

lemma c9_passes:
  "passesHardConstraints ex_service c9_line ex_sku (getProductFamily (input_text c9_line))"
  by code_simp

lemma c9_score: "score (scoreSKUMatch ex_service c9_line ex_sku) = 0"
  by code_simp

lemma c9_candidates: "findCandidates ex_service c9_line [ex_sku] = []"
  by code_simp

lemma c9_status:
  "status (mapping_result (mapLine ex_service [ex_sku] c9_line)) = Failed"
  by code_simp

section \<open>The decision policy\<close>

text \<open>
  Claim C1. For a candidate list with a first element, the status of the result is
  \<open>needs_review\<close> exactly when the top score is below \<open>auto_map_threshold\<close>, or a second
  candidate exists and the top score exceeds the second by less than \<open>confidence_delta\<close>,
  and \<open>auto_mapped\<close> otherwise; \<open>selected_sku\<close> is the top candidate's SKU code when the
  status is \<open>auto_mapped\<close> and absent otherwise. With threshold 0.85 and delta 0.12, a
  single candidate at 0.90 is auto-mapped, and 0.90 followed by 0.82 needs review.
\<close>

theorem decide_status_selected:
  "status (decideMappingResult this (topCandidate # rest) line) =
     (if score topCandidate < auto_map_threshold (config this) \<or>
         (rest \<noteq> [] \<and> score topCandidate - score (hd rest) < confidence_delta (config this))
      then Needs_review else Auto_mapped) \<and>
   selected_sku (decideMappingResult this (topCandidate # rest) line) =
     (if score topCandidate < auto_map_threshold (config this) \<or>
         (rest \<noteq> [] \<and> score topCandidate - score (hd rest) < confidence_delta (config this))
      then None else Some (skuCode (sku topCandidate))) \<and>
   ((selected_sku (decideMappingResult this (topCandidate # rest) line) \<noteq> None) =
    (status (decideMappingResult this (topCandidate # rest) line) = Auto_mapped)) \<and>
   (auto_map_threshold (config this) = 0.85 \<and> confidence_delta (config this) = 0.12 \<and>
    score topCandidate = 0.90 \<longrightarrow>
      status (decideMappingResult this [topCandidate] line) = Auto_mapped \<and>
      (\<forall>second more. score second = 0.82 \<longrightarrow>
         status (decideMappingResult this (topCandidate # second # more) line) = Needs_review))"
  by (cases rest) (simp_all add: decideMappingResult_def Let_def)

theorem decide_status_selected_witness:
  "status (decideMappingResult ex_service [ex_candidate ''NFC25'' 0.90]
             (ex_line ''pipe'' None)) = Auto_mapped \<and>
   selected_sku (decideMappingResult ex_service [ex_candidate ''NFC25'' 0.90]
             (ex_line ''pipe'' None)) = Some ''NFC25'' \<and>
   status (decideMappingResult ex_service
             [ex_candidate ''NFC25'' 0.90, ex_candidate ''NFC32'' 0.82]
             (ex_line ''pipe'' None)) = Needs_review \<and>
   selected_sku (decideMappingResult ex_service
             [ex_candidate ''NFC25'' 0.90, ex_candidate ''NFC32'' 0.82]
             (ex_line ''pipe'' None)) = None"
  using decide_status_selected [of ex_service "ex_candidate ''NFC25'' 0.90" "[]"
          "ex_line ''pipe'' None"]
        decide_status_selected [of ex_service "ex_candidate ''NFC25'' 0.90"
          "[ex_candidate ''NFC32'' 0.82]" "ex_line ''pipe'' None"]
  by (simp add: ex_service_def ex_config_def ex_candidate_def ex_sku_def)

text \<open>
  Claim C7. Deciding on the empty candidate list returns status \<open>failed\<close>, no selected
  SKU, no candidates, and an explanation whose assumptions are "No suitable SKU candidates
  found" and "Consider checking product catalog or input format". The engine finds no
  candidate in an empty catalog, so mapping any line against it gives that result. Every
  function on this path is total: there is no failing branch.
\<close>

theorem decide_empty_failed:
  "decideMappingResult this [] line =
     \<lparr>status = Failed, selected_sku = None, candidates = [],
      explanation = \<lparr>matched_fields = [],
        scores = \<lparr>fuzzy_score = 0, size_score = 0, material_score = 0, alias_score = 0,
                  total_score = 0\<rparr>,
        tolerances = \<lparr>tol_size_tolerance_mm = Some (size_tolerance_mm (config this)),
                      material_match = Some False\<rparr>,
        assumptions = [''No suitable SKU candidates found'',
                       ''Consider checking product catalog or input format''],
        confidence = Low, needs_review = True\<rparr>\<rparr> \<and>
   findCandidates this line [] = [] \<and>
   status (mapping_result (mapLine this [] line)) = Failed \<and>
   candidates (mapping_result (mapLine this [] line)) = [] \<and>
   ''No suitable SKU candidates found''
     \<in> set (assumptions (explanation (mapping_result (mapLine this [] line)))) \<and>
   map (\<lambda>m. (status (mapping_result m), candidates (mapping_result m)))
     (mapLineItems this parsedLines []) = replicate (length parsedLines) (Failed, [])"
  by (simp add: decideMappingResult_def createExplanation_def findCandidates_def Array_sort_def
        mapLine_def mapLineItems_def Let_def ParsedLineItem.defs MappedLineItem.defs
        comp_def map_replicate_const)

theorem decide_empty_failed_witness:
  "status (decideMappingResult ex_service [] (ex_line ''pipe'' None)) = Failed \<and>
   candidates (decideMappingResult ex_service [] (ex_line ''pipe'' None)) = [] \<and>
   assumptions (explanation (decideMappingResult ex_service [] (ex_line ''pipe'' None))) =
     [''No suitable SKU candidates found'',
      ''Consider checking product catalog or input format''] \<and>
   status (mapping_result (mapLine ex_service [] (ex_line ''pipe'' None))) = Failed \<and>
   map (\<lambda>m. status (mapping_result m))
     (mapLineItems ex_service [ex_line ''pipe'' None, c9_line] []) = [Failed, Failed]"
proof -
  note empty = decide_empty_failed [of ex_service "ex_line ''pipe'' None"
                 "[ex_line ''pipe'' None, c9_line]"]
  from empty have
    "map (\<lambda>m. (status (mapping_result m), candidates (mapping_result m)))
       (mapLineItems ex_service [ex_line ''pipe'' None, c9_line] []) = [(Failed, []), (Failed, [])]"
    by (simp add: numeral_2_eq_2)
  then have
    "map fst (map (\<lambda>m. (status (mapping_result m), candidates (mapping_result m)))
       (mapLineItems ex_service [ex_line ''pipe'' None, c9_line] [])) = [Failed, Failed]"
    by (simp only: list.map fst_conv)
  then have
    "map (\<lambda>m. status (mapping_result m))
       (mapLineItems ex_service [ex_line ''pipe'' None, c9_line] []) = [Failed, Failed]"
    by (simp add: comp_def)
  with empty show ?thesis by simp
qed

text \<open>
  Claim C10. The \<open>needs_review\<close> flag of the explanation is true exactly when there is no
  top candidate or the top score is below \<open>auto_map_threshold\<close>; the margin between the
  first two candidates plays no part in it. So there are candidate lists for which the
  status is \<open>needs_review\<close> while the explanation's flag is false.
\<close>

theorem explanation_needs_review:
  "needs_review (explanation (decideMappingResult this cands line)) =
     (cands = [] \<or> score (hd cands) < auto_map_threshold (config this)) \<and>
   (\<exists>this cands line. status (decideMappingResult this cands line) = Needs_review \<and>
      \<not> needs_review (explanation (decideMappingResult this cands line)))"
proof (intro conjI)
  show "needs_review (explanation (decideMappingResult this cands line)) =
     (cands = [] \<or> score (hd cands) < auto_map_threshold (config this))"
    by (cases cands)
       (simp_all add: decideMappingResult_def createExplanation_def Let_def
          calculateConfidence_def)
next
  have "status (decideMappingResult ex_service
                  [ex_candidate ''NFC25'' 0.90, ex_candidate ''NFC32'' 0.82]
                  (ex_line ''pipe'' None)) = Needs_review \<and>
        \<not> needs_review (explanation (decideMappingResult ex_service
                  [ex_candidate ''NFC25'' 0.90, ex_candidate ''NFC32'' 0.82]
                  (ex_line ''pipe'' None)))"
    by (simp add: decideMappingResult_def createExplanation_def Let_def
          calculateConfidence_def ex_service_def ex_config_def ex_candidate_def)
  then show "\<exists>this cands line. status (decideMappingResult this cands line) = Needs_review \<and>
      \<not> needs_review (explanation (decideMappingResult this cands line))"
    by blast
qed

theorem explanation_needs_review_witness:
  "needs_review (explanation (decideMappingResult ex_service
       [ex_candidate ''NFC25'' 0.90, ex_candidate ''NFC32'' 0.82] (ex_line ''pipe'' None))) = False \<and>
   needs_review (explanation (decideMappingResult ex_service
       [ex_candidate ''NFC25'' 0.80] (ex_line ''pipe'' None))) = True"
  using explanation_needs_review [of ex_service
          "[ex_candidate ''NFC25'' 0.90, ex_candidate ''NFC32'' 0.82]" "ex_line ''pipe'' None"]
        explanation_needs_review [of ex_service
          "[ex_candidate ''NFC25'' 0.80]" "ex_line ''pipe'' None"]
  by (simp add: ex_service_def ex_config_def ex_candidate_def)

section \<open>The normalizer\<close>

text \<open>
  Claim C8, as stated, fails: the token \<open>steel\<close> matches no substring rule, and
  \<open>normalizeMaterial\<close> returns it in upper case, a value outside the listed codes and
  not an absent one.
\<close>

theorem normalizeMaterial_unrecognised_counterexample:
  "normalizeMaterial ''steel'' = ''STEEL'' \<and> ''STEEL'' \<notin> set material_codes"
  by (simp add: normalizeMaterial_def material_codes_def char_case_defs trim_def isSpace_def)

text \<open>
  Claim C8, amended. \<open>normalizeMaterial\<close> returns one of the codes PVC, PP, FRPP, FR, MS,
  NYLON, HDPE, LDPE when the trimmed, lower-cased token contains one of the markers of
  its substring rules, and FRPP whenever \<open>fr\<close> and \<open>pp\<close> both occur; a token with no
  marker is returned in upper case. A line without a material token keeps the normalized
  material it came with (none, if it had none).
\<close>

theorem normalizeMaterial_codes:
  "(list_ex (str_includes (trim (toLowerCase m))) material_markers \<longrightarrow>
      normalizeMaterial m \<in> set material_codes) \<and>
   (\<not> list_ex (str_includes (trim (toLowerCase m))) material_markers \<longrightarrow>
      normalizeMaterial m = toUpperCase m) \<and>
   (str_includes (trim (toLowerCase m)) ''fr'' \<and> str_includes (trim (toLowerCase m)) ''pp'' \<longrightarrow>
      normalizeMaterial m = ''FRPP'') \<and>
   (\<not> truthy_str (material_token (raw_tokens line)) \<longrightarrow>
      norm_material (normalizeLineItem line) = norm_material line)"
proof (intro conjI impI)
  assume "list_ex (str_includes (trim (toLowerCase m))) material_markers"
  then show "normalizeMaterial m \<in> set material_codes"
    by (auto simp add: normalizeMaterial_def material_codes_def material_markers_def Let_def)
next
  assume "\<not> list_ex (str_includes (trim (toLowerCase m))) material_markers"
  then show "normalizeMaterial m = toUpperCase m"
    by (simp add: normalizeMaterial_def material_markers_def Let_def)
next
  assume "str_includes (trim (toLowerCase m)) ''fr'' \<and> str_includes (trim (toLowerCase m)) ''pp''"
  then show "normalizeMaterial m = ''FRPP''"
    by (simp add: normalizeMaterial_def Let_def)
next
  assume "\<not> truthy_str (material_token (raw_tokens line))"
  then show "norm_material (normalizeLineItem line) = norm_material line"
    by (cases "normalized line")
       (simp_all add: normalizeLineItem_def norm_material_def spread_normalized_def Let_def)
qed

theorem normalizeMaterial_codes_witness:
  "normalizeMaterial ''FR grade PP'' = ''FRPP'' \<and>
   normalizeMaterial ''upvc'' \<in> set material_codes \<and>
   normalizeMaterial ''wood'' = ''WOOD'' \<and>
   norm_material (normalizeLineItem (ex_line ''pipe'' None)) = None"
  using normalizeMaterial_codes [of "''FR grade PP''" "ex_line ''pipe'' None"]
        normalizeMaterial_codes [of "''upvc''" "ex_line ''pipe'' None"]
        normalizeMaterial_codes [of "''wood''" "ex_line ''pipe'' None"]
  by (simp add: material_markers_def char_case_defs trim_def isSpace_def ex_line_def
        truthy_str_def norm_material_def)

section \<open>The hard-constraint filter\<close>

text \<open>
  Claim C3. When the line and the SKU both carry a material, the hard-constraint filter
  admits the pair only if the materials are compatible: a direct match (the line's
  material equals the SKU's material or its alternate material), or, for a SKU of the
  Corrugated Flexible Pipe family, a requested FRPP or FR against a SKU whose material is
  PP or whose alternate material is FRPP, or a requested PP against material PP. The
  source compares the materials after upper-casing both sides, and the first two
  conjuncts say exactly when \<open>isMaterialCompatible\<close> holds and when the filter passes; for
  material codes written in upper case, as the normalizer produces them, the comparison is
  equality of the codes, which is what the third and fourth conjuncts state. A line
  normalized to FR against a Corrugated Flexible Pipe SKU of material PP is compatible, so
  the filter passes it whenever the family and size constraints hold; a line normalized
  to PVC against such a SKU (whose alternate material is not PVC) is filtered out.
\<close>

theorem material_filter_exact_or_hierarchy:
  "(isMaterialCompatible m sk \<longleftrightarrow>
      toUpperCase m = toUpperCase (material sk) \<or>
      Some (toUpperCase m) = map_option toUpperCase (altMaterial sk) \<or>
      (productFamily sk = ''Corrugated Flexible Pipe'' \<and>
       ((toUpperCase m = ''FRPP'' \<or> toUpperCase m = ''FR'') \<and>
        (toUpperCase (material sk) = ''PP'' \<or>
         map_option toUpperCase (altMaterial sk) = Some ''FRPP'') \<or>
        toUpperCase m = ''PP'' \<and> toUpperCase (material sk) = ''PP''))) \<and>
   (passesHardConstraints this line sk fam \<longleftrightarrow>
      (fam = ''Unknown'' \<or> productFamily sk = fam) \<and>
      \<not> (truthy_num (norm_size_mm line) \<and> truthy_num (sizeOdMm sk) \<and>
         \<bar>num_val (norm_size_mm line) - num_val (sizeOdMm sk)\<bar>
           > num_or (toleranceMm sk) (size_tolerance_mm (config this))) \<and>
      (truthy_str (norm_material line) \<and> material sk \<noteq> [] \<longrightarrow>
         isMaterialCompatible (str_val (norm_material line)) sk)) \<and>
   (toUpperCase m = m \<and> toUpperCase (material sk) = material sk \<and>
    map_option toUpperCase (altMaterial sk) = altMaterial sk \<longrightarrow>
      (isMaterialCompatible m sk \<longleftrightarrow>
         m = material sk \<or> Some m = altMaterial sk \<or>
         (productFamily sk = ''Corrugated Flexible Pipe'' \<and>
          ((m = ''FRPP'' \<or> m = ''FR'') \<and>
           (material sk = ''PP'' \<or> altMaterial sk = Some ''FRPP'') \<or>
           m = ''PP'' \<and> material sk = ''PP'')))) \<and>
   (norm_material line = Some m \<and> m \<noteq> [] \<and> material sk \<noteq> [] \<and>
    toUpperCase m = m \<and> toUpperCase (material sk) = material sk \<and>
    map_option toUpperCase (altMaterial sk) = altMaterial sk \<and>
    passesHardConstraints this line sk fam \<longrightarrow>
      m = material sk \<or> Some m = altMaterial sk \<or>
      (productFamily sk = ''Corrugated Flexible Pipe'' \<and> (m = ''FRPP'' \<or> m = ''FR'') \<and>
       (material sk = ''PP'' \<or> altMaterial sk = Some ''FRPP''))) \<and>
   (norm_material line = Some ''FR'' \<and> productFamily sk = ''Corrugated Flexible Pipe'' \<and>
    material sk = ''PP'' \<longrightarrow>
      isMaterialCompatible ''FR'' sk \<and>
      (passesHardConstraints this line sk fam \<longleftrightarrow>
         (fam = ''Unknown'' \<or> productFamily sk = fam) \<and>
         \<not> (truthy_num (norm_size_mm line) \<and> truthy_num (sizeOdMm sk) \<and>
            \<bar>num_val (norm_size_mm line) - num_val (sizeOdMm sk)\<bar>
              > num_or (toleranceMm sk) (size_tolerance_mm (config this))))) \<and>
   (norm_material line = Some ''PVC'' \<and> productFamily sk = ''Corrugated Flexible Pipe'' \<and>
    material sk = ''PP'' \<and> map_option toUpperCase (altMaterial sk) \<noteq> Some ''PVC'' \<longrightarrow>
      \<not> passesHardConstraints this line sk fam)"
proof -
  have compat: "isMaterialCompatible m sk \<longleftrightarrow>
      toUpperCase m = toUpperCase (material sk) \<or>
      Some (toUpperCase m) = map_option toUpperCase (altMaterial sk) \<or>
      (productFamily sk = ''Corrugated Flexible Pipe'' \<and>
       ((toUpperCase m = ''FRPP'' \<or> toUpperCase m = ''FR'') \<and>
        (toUpperCase (material sk) = ''PP'' \<or>
         map_option toUpperCase (altMaterial sk) = Some ''FRPP'') \<or>
        toUpperCase m = ''PP'' \<and> toUpperCase (material sk) = ''PP''))" for m
    by (simp add: isMaterialCompatible_def Let_def) blast
  have filt: "passesHardConstraints this line sk fam \<longleftrightarrow>
      (fam = ''Unknown'' \<or> productFamily sk = fam) \<and>
      \<not> (truthy_num (norm_size_mm line) \<and> truthy_num (sizeOdMm sk) \<and>
         \<bar>num_val (norm_size_mm line) - num_val (sizeOdMm sk)\<bar>
           > num_or (toleranceMm sk) (size_tolerance_mm (config this))) \<and>
      (truthy_str (norm_material line) \<and> material sk \<noteq> [] \<longrightarrow>
         isMaterialCompatible (str_val (norm_material line)) sk)"
    by (simp add: passesHardConstraints_def Let_def) blast
  have lit: "isMaterialCompatible m sk \<longleftrightarrow>
         m = material sk \<or> Some m = altMaterial sk \<or>
         (productFamily sk = ''Corrugated Flexible Pipe'' \<and>
          ((m = ''FRPP'' \<or> m = ''FR'') \<and>
           (material sk = ''PP'' \<or> altMaterial sk = Some ''FRPP'') \<or>
           m = ''PP'' \<and> material sk = ''PP''))"
    if "toUpperCase m = m \<and> toUpperCase (material sk) = material sk \<and>
        map_option toUpperCase (altMaterial sk) = altMaterial sk"
    using that compat [of m] by simp
  have only_if: "m = material sk \<or> Some m = altMaterial sk \<or>
      (productFamily sk = ''Corrugated Flexible Pipe'' \<and> (m = ''FRPP'' \<or> m = ''FR'') \<and>
       (material sk = ''PP'' \<or> altMaterial sk = Some ''FRPP''))"
    if h: "norm_material line = Some m \<and> m \<noteq> [] \<and> material sk \<noteq> [] \<and>
        toUpperCase m = m \<and> toUpperCase (material sk) = material sk \<and>
        map_option toUpperCase (altMaterial sk) = altMaterial sk \<and>
        passesHardConstraints this line sk fam"
  proof -
    from h have carried: "truthy_str (norm_material line) \<and> material sk \<noteq> []"
      and sv: "str_val (norm_material line) = m"
      by (simp_all add: truthy_str_def str_val_def)
    from h filt have
      "truthy_str (norm_material line) \<and> material sk \<noteq> [] \<longrightarrow>
         isMaterialCompatible (str_val (norm_material line)) sk"
      by blast
    with carried sv have "isMaterialCompatible m sk" by simp
    with h lit show ?thesis by auto
  qed
  have fr: "isMaterialCompatible ''FR'' sk \<and>
      (passesHardConstraints this line sk fam \<longleftrightarrow>
         (fam = ''Unknown'' \<or> productFamily sk = fam) \<and>
         \<not> (truthy_num (norm_size_mm line) \<and> truthy_num (sizeOdMm sk) \<and>
            \<bar>num_val (norm_size_mm line) - num_val (sizeOdMm sk)\<bar>
              > num_or (toleranceMm sk) (size_tolerance_mm (config this))))"
    if h: "norm_material line = Some ''FR'' \<and> productFamily sk = ''Corrugated Flexible Pipe'' \<and>
        material sk = ''PP''"
  proof -
    from h have c: "isMaterialCompatible ''FR'' sk"
      by (simp add: compat toUpperCase_codes)
    with h filt show ?thesis by (simp add: str_val_def)
  qed
  have pvc: "\<not> passesHardConstraints this line sk fam"
    if h: "norm_material line = Some ''PVC'' \<and> productFamily sk = ''Corrugated Flexible Pipe'' \<and>
        material sk = ''PP'' \<and> map_option toUpperCase (altMaterial sk) \<noteq> Some ''PVC''"
  proof -
    from h have "\<not> isMaterialCompatible ''PVC'' sk"
      by (cases "altMaterial sk") (auto simp add: compat toUpperCase_codes)
    with h filt show ?thesis by (simp add: str_val_def truthy_str_def)
  qed
  from compat [of m] filt lit only_if fr pvc show ?thesis by blast
qed

theorem material_filter_exact_or_hierarchy_witness:
  "passesHardConstraints ex_service
     (ex_line ''pipe'' (Some (ex_normalized None (Some ''FR'') None))) ex_sku ''Unknown'' \<and>
   \<not> passesHardConstraints ex_service
     (ex_line ''pipe'' (Some (ex_normalized None (Some ''PVC'') None))) ex_sku ''Unknown'' \<and>
   isMaterialCompatible ''PP'' ex_sku \<and> \<not> isMaterialCompatible ''PVC'' ex_sku"
proof -
  let ?fr = "ex_line ''pipe'' (Some (ex_normalized None (Some ''FR'') None))"
  let ?pvc = "ex_line ''pipe'' (Some (ex_normalized None (Some ''PVC'') None))"
  note at_fr = material_filter_exact_or_hierarchy [of "''PP''" ex_sku ex_service ?fr "''Unknown''"]
  note at_pvc = material_filter_exact_or_hierarchy [of "''PVC''" ex_sku ex_service ?pvc "''Unknown''"]
  have upper_pp: "toUpperCase ''PP'' = ''PP'' \<and> toUpperCase (material ex_sku) = material ex_sku \<and>
      map_option toUpperCase (altMaterial ex_sku) = altMaterial ex_sku"
    by (simp add: ex_sku_def toUpperCase_codes)
  have upper_pvc: "toUpperCase ''PVC'' = ''PVC'' \<and> toUpperCase (material ex_sku) = material ex_sku \<and>
      map_option toUpperCase (altMaterial ex_sku) = altMaterial ex_sku"
    by (simp add: ex_sku_def toUpperCase_codes)
  have hyp_fr: "norm_material ?fr = Some ''FR'' \<and>
      productFamily ex_sku = ''Corrugated Flexible Pipe'' \<and> material ex_sku = ''PP''"
    by (simp add: ex_line_def ex_sku_def ex_normalized_def norm_material_def)
  have hyp_pvc: "norm_material ?pvc = Some ''PVC'' \<and>
      productFamily ex_sku = ''Corrugated Flexible Pipe'' \<and> material ex_sku = ''PP'' \<and>
      map_option toUpperCase (altMaterial ex_sku) \<noteq> Some ''PVC''"
    by (simp add: ex_line_def ex_sku_def ex_normalized_def norm_material_def)
  have fam_size: "(''Unknown'' = ''Unknown'' \<or> productFamily ex_sku = ''Unknown'') \<and>
      \<not> (truthy_num (norm_size_mm ?fr) \<and> truthy_num (sizeOdMm ex_sku) \<and>
         \<bar>num_val (norm_size_mm ?fr) - num_val (sizeOdMm ex_sku)\<bar>
           > num_or (toleranceMm ex_sku) (size_tolerance_mm (config ex_service)))"
    by (simp add: ex_line_def ex_normalized_def norm_size_mm_def truthy_num_def)
  note fr_case = at_fr [THEN conjunct2, THEN conjunct2, THEN conjunct2, THEN conjunct2,
                      THEN conjunct1, THEN mp, OF hyp_fr]
  have p1: "passesHardConstraints ex_service ?fr ex_sku ''Unknown''"
    by (rule iffD2 [OF fr_case [THEN conjunct2] fam_size])
  have p2: "\<not> passesHardConstraints ex_service ?pvc ex_sku ''Unknown''"
    by (rule at_pvc [THEN conjunct2, THEN conjunct2, THEN conjunct2, THEN conjunct2,
                    THEN conjunct2, THEN mp, OF hyp_pvc])
  note pp_iff = at_fr [THEN conjunct2, THEN conjunct2, THEN conjunct1, THEN mp, OF upper_pp]
  have p3: "isMaterialCompatible ''PP'' ex_sku"
    using pp_iff by (simp add: ex_sku_def)
  note pvc_iff = at_pvc [THEN conjunct2, THEN conjunct2, THEN conjunct1, THEN mp, OF upper_pvc]
  have p4: "\<not> isMaterialCompatible ''PVC'' ex_sku"
    using pvc_iff by (simp add: ex_sku_def)
  from p1 p2 p3 p4 show ?thesis by simp
qed

section \<open>The sub-scores\<close>

text \<open>
  Claim C2. The size score is tiered by the absolute size difference against a tolerance
  \<open>t\<close>, the SKU's own tolerance if set and the configured default otherwise: 1.0 within
  \<open>t\<close>, 0.7 within \<open>2t\<close>, 0.3 within \<open>4t\<close>, else 0. The filter takes the tolerance that
  way (\<open>sku.toleranceMm || config.size_tolerance_mm\<close>), but \<open>calculateSizeScore\<close> reads only
  the configured value. For a line of 25 mm and a SKU of 28 mm with its own tolerance of
  5 mm, under the configured 2 mm, the filter's tolerance is 5 mm and it admits the pair
  as within tolerance, while the size score is 0.7 and not the 1.0 of the first tier.
\<close>

theorem size_score_sku_tolerance_ignored:
  "truthy_num (norm_size_mm c2_line) \<and> truthy_num (sizeOdMm c2_sku) \<and>
   toleranceMm c2_sku = Some 5 \<and>
   num_or (toleranceMm c2_sku) (size_tolerance_mm (config ex_service)) = 5 \<and>
   \<bar>num_val (norm_size_mm c2_line) - num_val (sizeOdMm c2_sku)\<bar> = 3 \<and>
   passesHardConstraints ex_service c2_line c2_sku (getProductFamily (input_text c2_line)) \<and>
   calculateSizeScore ex_service c2_line c2_sku = 0.7 \<and>
   calculateSizeScore ex_service c2_line c2_sku \<noteq> 1.0"
  by (simp add: c2_line_def c2_sku_def ex_line_def ex_sku_def ex_normalized_def ex_service_def
       ex_config_def calculateSizeScore_def norm_size_mm_def truthy_num_def num_val_def
       passesHardConstraints_def getProductFamily_def toLowerCase_def toLowerCase_char_def
       uppers_def lowers_def num_or_def norm_material_def truthy_str_def)

theorem size_score_sku_tolerance_ignored_witness:
  "\<bar>num_val (norm_size_mm c2_line) - num_val (sizeOdMm c2_sku)\<bar>
     \<le> num_or (toleranceMm c2_sku) (size_tolerance_mm (config ex_service)) \<and>
   passesHardConstraints ex_service c2_line c2_sku (getProductFamily (input_text c2_line)) \<and>
   calculateSizeScore ex_service c2_line c2_sku < 1"
proof -
  note at_input = size_score_sku_tolerance_ignored
  from at_input have
    tol: "num_or (toleranceMm c2_sku) (size_tolerance_mm (config ex_service)) = 5"
    by (rule conjunct2 [THEN conjunct2, THEN conjunct2, THEN conjunct1])
  from at_input have
    diff: "\<bar>num_val (norm_size_mm c2_line) - num_val (sizeOdMm c2_sku)\<bar> = 3"
    by (rule conjunct2 [THEN conjunct2, THEN conjunct2, THEN conjunct2, THEN conjunct1])
  from at_input have
    pass: "passesHardConstraints ex_service c2_line c2_sku (getProductFamily (input_text c2_line))"
    by (rule conjunct2 [THEN conjunct2, THEN conjunct2, THEN conjunct2, THEN conjunct2,
                        THEN conjunct1])
  from at_input have
    val: "calculateSizeScore ex_service c2_line c2_sku = 0.7"
    by (rule conjunct2 [THEN conjunct2, THEN conjunct2, THEN conjunct2, THEN conjunct2,
                        THEN conjunct2, THEN conjunct1])
  show ?thesis by (simp only: tol diff pass val) simp
qed

text \<open>
  Claim C4, as stated, fails: for a Rigid PVC Conduit SKU of gauge \<open>M\<close> and a line with
  the same material and no gauge, the material score is 1.0 without gauge equality.
\<close>

theorem material_score_gauge_counterexample:
  "productFamily c4_sku = ''Rigid PVC Conduit'' \<and>
   norm_material c4_line = Some (material c4_sku) \<and>
   norm_gauge c4_line = None \<and> gauge c4_sku = Some ''M'' \<and>
   norm_gauge c4_line \<noteq> gauge c4_sku \<and>
   calculateMaterialScore c4_line c4_sku = 1.0"
  by (simp add: c4_line_def c4_sku_def ex_line_def ex_sku_def ex_normalized_def
        calculateMaterialScore_def norm_material_def norm_gauge_def truthy_str_def str_val_def)

text \<open>
  Claim C4, amended. The material score is 0.5 when neither side carries a material and
  0.2 when exactly one does. When both do and they are equal up to letter case, the score
  is 1.0, except for a SKU of the Rigid PVC Conduit family when the line and the SKU both
  carry a gauge and the gauges differ: then it is 0.7. When either gauge is unset the
  gauge is not consulted.
\<close>

theorem material_score_cases:
  "(\<not> truthy_str (norm_material line) \<and> material sk = [] \<longrightarrow> calculateMaterialScore line sk = 0.5) \<and>
   (truthy_str (norm_material line) \<noteq> (material sk \<noteq> []) \<longrightarrow> calculateMaterialScore line sk = 0.2) \<and>
   (truthy_str (norm_material line) \<and> material sk \<noteq> [] \<and>
    toLowerCase (str_val (norm_material line)) = toLowerCase (material sk) \<longrightarrow>
      calculateMaterialScore line sk =
        (if productFamily sk = ''Rigid PVC Conduit'' \<and>
            truthy_str (norm_gauge line) \<and> truthy_str (gauge sk) \<and> norm_gauge line \<noteq> gauge sk
         then 0.7 else 1.0))"
  by (auto simp add: calculateMaterialScore_def Let_def)

theorem material_score_cases_witness:
  "calculateMaterialScore (ex_line ''pipe'' None) (ex_sku\<lparr>material := []\<rparr>) = 0.5 \<and>
   calculateMaterialScore (ex_line ''pipe'' None) ex_sku = 0.2 \<and>
   calculateMaterialScore (ex_line ''pipe'' (Some (ex_normalized None (Some ''PP'') None))) ex_sku = 1.0 \<and>
   calculateMaterialScore (ex_line ''pvc conduit'' (Some (ex_normalized None (Some ''PVC'') (Some ''H'')))) c4_sku = 0.7 \<and>
   calculateMaterialScore (ex_line ''pvc conduit'' (Some (ex_normalized None (Some ''PVC'') (Some ''M'')))) c4_sku = 1.0"
  using material_score_cases [of "ex_line ''pipe'' None" "ex_sku\<lparr>material := []\<rparr>"]
    material_score_cases [of "ex_line ''pipe'' None" ex_sku]
    material_score_cases [of "ex_line ''pipe'' (Some (ex_normalized None (Some ''PP'') None))" ex_sku]
    material_score_cases [of "ex_line ''pvc conduit'' (Some (ex_normalized None (Some ''PVC'') (Some ''H'')))" c4_sku]
    material_score_cases [of "ex_line ''pvc conduit'' (Some (ex_normalized None (Some ''PVC'') (Some ''M'')))" c4_sku]
  by (simp add: c4_sku_def ex_line_def ex_sku_def ex_normalized_def
        norm_material_def norm_gauge_def truthy_str_def str_val_def)

text \<open>
  Claim C6. In every scored candidate the fuzzy, size, material and alias sub-scores lie
  in [0,1]; the total score is the weighted sum of the four sub-scores capped at 1.0, so
  it is at most 1 whatever the weights are, and it is at least 0 when the four weights
  are nonnegative.
\<close>

theorem score_bounds:
  "0 \<le> fuzzy_score (breakdown (scoreSKUMatch this line sk)) \<and>
   fuzzy_score (breakdown (scoreSKUMatch this line sk)) \<le> 1 \<and>
   0 \<le> size_score (breakdown (scoreSKUMatch this line sk)) \<and>
   size_score (breakdown (scoreSKUMatch this line sk)) \<le> 1 \<and>
   0 \<le> material_score (breakdown (scoreSKUMatch this line sk)) \<and>
   material_score (breakdown (scoreSKUMatch this line sk)) \<le> 1 \<and>
   0 \<le> alias_score (breakdown (scoreSKUMatch this line sk)) \<and>
   alias_score (breakdown (scoreSKUMatch this line sk)) \<le> 1 \<and>
   score (scoreSKUMatch this line sk) =
     min (fuzzy_score (breakdown (scoreSKUMatch this line sk)) * fuzzy_weight (config this) +
          size_score (breakdown (scoreSKUMatch this line sk)) * size_weight (config this) +
          material_score (breakdown (scoreSKUMatch this line sk)) * material_weight (config this) +
          alias_score (breakdown (scoreSKUMatch this line sk)) * alias_weight (config this)) 1.0 \<and>
   score (scoreSKUMatch this line sk) \<le> 1 \<and>
   (0 \<le> fuzzy_weight (config this) \<and> 0 \<le> size_weight (config this) \<and>
    0 \<le> material_weight (config this) \<and> 0 \<le> alias_weight (config this) \<longrightarrow>
      0 \<le> score (scoreSKUMatch this line sk))"
proof -
  note f = calculateFuzzyScore_bounds [of "input_text line" sk]
  note s = calculateSizeScore_bounds [of this line sk]
  note m = calculateMaterialScore_bounds [of line sk]
  note a = calculateAliasScore_bounds [of this "input_text line" sk]
  have nonneg: "0 \<le> score (scoreSKUMatch this line sk)"
    if w: "0 \<le> fuzzy_weight (config this) \<and> 0 \<le> size_weight (config this) \<and>
           0 \<le> material_weight (config this) \<and> 0 \<le> alias_weight (config this)"
  proof -
    have "0 \<le> calculateFuzzyScore (input_text line) sk * fuzzy_weight (config this)"
      using f w by simp
    moreover have "0 \<le> calculateSizeScore this line sk * size_weight (config this)"
      using s w by simp
    moreover have "0 \<le> calculateMaterialScore line sk * material_weight (config this)"
      using m w by simp
    moreover have "0 \<le> calculateAliasScore this (input_text line) sk * alias_weight (config this)"
      using a w by simp
    ultimately show ?thesis by (simp add: scoreSKUMatch_fields)
  qed
  show ?thesis using f s m a nonneg by (simp add: scoreSKUMatch_fields)
qed

theorem score_bounds_witness:
  "0 \<le> fuzzy_weight (config ex_service) \<and> 0 \<le> size_weight (config ex_service) \<and>
   0 \<le> material_weight (config ex_service) \<and> 0 \<le> alias_weight (config ex_service) \<and>
   0 \<le> score (scoreSKUMatch ex_service c5_line ex_sku) \<and>
   score (scoreSKUMatch ex_service c5_line ex_sku) \<le> 1 \<and>
   score (scoreSKUMatch ex_service c5_line ex_sku) = 17 / 35"
  using score_bounds [of ex_service c5_line ex_sku] c5_score
  by (simp add: ex_service_def ex_config_def)

section \<open>The candidate list\<close>

text \<open>
  Claim C5. The candidate list returned by \<open>findCandidates\<close> is in descending order of
  total score: each candidate's score is at least the score of the next one. Ties keep
  the catalog iteration order: for every score, the candidates with that score appear in
  the list in the order in which the catalog loop admitted them.
\<close>

theorem candidates_sorted_stable:
  "(\<forall>i. Suc i < length (findCandidates this line skuCatalog) \<longrightarrow>
       score (findCandidates this line skuCatalog ! Suc i)
         \<le> score (findCandidates this line skuCatalog ! i)) \<and>
   (\<forall>k. filter (\<lambda>c. score c = k) (findCandidates this line skuCatalog) =
        filter (\<lambda>c. score c = k)
          (map (scoreSKUMatch this line)
             (filter (\<lambda>sk. passesHardConstraints this line sk (getProductFamily (input_text line)) \<and>
                            score (scoreSKUMatch this line sk) > 0.1) skuCatalog)))"
proof (intro conjI allI impI)
  fix i
  assume i: "Suc i < length (findCandidates this line skuCatalog)"
  have "sorted_wrt (\<lambda>a b. score b \<le> score a) (findCandidates this line skuCatalog)"
    by (simp add: findCandidates_def Let_def sorted_Array_sort)
  then show "score (findCandidates this line skuCatalog ! Suc i)
         \<le> score (findCandidates this line skuCatalog ! i)"
    using i by (simp add: sorted_wrt_iff_nth_less)
next
  fix k
  show "filter (\<lambda>c. score c = k) (findCandidates this line skuCatalog) =
        filter (\<lambda>c. score c = k)
          (map (scoreSKUMatch this line)
             (filter (\<lambda>sk. passesHardConstraints this line sk (getProductFamily (input_text line)) \<and>
                            score (scoreSKUMatch this line sk) > 0.1) skuCatalog))"
    by (simp add: findCandidates_def Let_def Array_sort_stable findLoop_eq)
qed

theorem candidates_sorted_stable_witness:
  "Suc 0 < length (findCandidates ex_service c5_line c5_catalog) \<and>
   score (findCandidates ex_service c5_line c5_catalog ! Suc 0)
     \<le> score (findCandidates ex_service c5_line c5_catalog ! 0) \<and>
   map (\<lambda>c. skuCode (sku c))
     (filter (\<lambda>c. score c = 17 / 35) (findCandidates ex_service c5_line c5_catalog)) =
   [''NFC25A'', ''NFC25B'']"
proof -
  note srt = candidates_sorted_stable [of ex_service c5_line c5_catalog]
  have len: "Suc 0 < length (findCandidates ex_service c5_line c5_catalog)"
    using c5_length by simp
  from srt len have desc:
    "score (findCandidates ex_service c5_line c5_catalog ! Suc 0)
       \<le> score (findCandidates ex_service c5_line c5_catalog ! 0)"
    by blast
  from srt have stable:
    "filter (\<lambda>c. score c = 17 / 35) (findCandidates ex_service c5_line c5_catalog) =
     filter (\<lambda>c. score c = 17 / 35)
       (map (scoreSKUMatch ex_service c5_line)
          (filter (\<lambda>sk. passesHardConstraints ex_service c5_line sk
                            (getProductFamily (input_text c5_line)) \<and>
                         score (scoreSKUMatch ex_service c5_line sk) > 0.1) c5_catalog))"
    by blast
  have ties:
    "map (\<lambda>c. skuCode (sku c))
       (filter (\<lambda>c. score c = 17 / 35) (findCandidates ex_service c5_line c5_catalog)) =
     [''NFC25A'', ''NFC25B'']"
    by (subst stable) (rule c5_admitted)
  from len desc ties show ?thesis by blast
qed

text \<open>
  Claim C9. A catalog entry yields a candidate exactly when it passes the hard
  constraints and its total score is strictly above 0.1. So an admissible entry can be
  left out: there are a line and a catalog with an admissible SKU for which the
  candidate list is empty and the mapping result has status \<open>failed\<close>.
\<close>

theorem candidates_above_floor:
  "(c \<in> set (findCandidates this line skuCatalog) \<longleftrightarrow>
      (\<exists>sk \<in> set skuCatalog.
         passesHardConstraints this line sk (getProductFamily (input_text line)) \<and>
         c = scoreSKUMatch this line sk \<and> score c > 0.1)) \<and>
   (\<exists>this line skuCatalog.
      (\<exists>sk \<in> set skuCatalog.
         passesHardConstraints this line sk (getProductFamily (input_text line))) \<and>
      findCandidates this line skuCatalog = [] \<and>
      status (decideMappingResult this (findCandidates this line skuCatalog) line) = Failed)"
proof (intro conjI)
  show "c \<in> set (findCandidates this line skuCatalog) \<longleftrightarrow>
      (\<exists>sk \<in> set skuCatalog.
         passesHardConstraints this line sk (getProductFamily (input_text line)) \<and>
         c = scoreSKUMatch this line sk \<and> score c > 0.1)"
    by (auto simp add: findCandidates_def Let_def set_Array_sort findLoop_eq)
next
  have "(\<exists>sk \<in> set [ex_sku].
           passesHardConstraints ex_service c9_line sk (getProductFamily (input_text c9_line))) \<and>
        findCandidates ex_service c9_line [ex_sku] = [] \<and>
        status (decideMappingResult ex_service (findCandidates ex_service c9_line [ex_sku]) c9_line)
          = Failed"
    using c9_passes c9_candidates by (simp add: decideMappingResult_def)
  then show "\<exists>this line skuCatalog.
      (\<exists>sk \<in> set skuCatalog.
         passesHardConstraints this line sk (getProductFamily (input_text line))) \<and>
      findCandidates this line skuCatalog = [] \<and>
      status (decideMappingResult this (findCandidates this line skuCatalog) line) = Failed"
    by blast
qed

theorem candidates_above_floor_witness:
  "ex_sku \<in> set [ex_sku] \<and>
   passesHardConstraints ex_service c9_line ex_sku (getProductFamily (input_text c9_line)) \<and>
   score (scoreSKUMatch ex_service c9_line ex_sku) = 0 \<and>
   scoreSKUMatch ex_service c9_line ex_sku \<notin> set (findCandidates ex_service c9_line [ex_sku]) \<and>
   status (mapping_result (mapLine ex_service [ex_sku] c9_line)) = Failed"
  using candidates_above_floor [of "scoreSKUMatch ex_service c9_line ex_sku" ex_service c9_line
          "[ex_sku]"] c9_passes c9_score c9_status
  by simp

end
